theory Spec2Isabelle
  imports Complex_Main
begin

section \<open>The wallet hook \<open>useWallet\<close> and the card's \<open>formatAddress\<close>\<close>

text \<open>
  A JavaScript string is a sequence of code units. It is modelled by \<^typ>\<open>string\<close>, one
  \<^typ>\<open>char\<close> for each code unit, so \<^const>\<open>length\<close> is the \<open>length\<close> property. Only
  code units below 256 exist in the model; account identifiers, chain identifiers and
  hex-encoded balances are ASCII.
\<close>

subsection \<open>String.prototype.substring\<close>

definition clamp_index :: "string \<Rightarrow> int \<Rightarrow> nat" where
  "clamp_index s i = nat (min (max i 0) (int (length s)))"

text \<open>\<open>s.substring(start, end)\<close>: both indices are clamped to \<open>[0, length]\<close> and swapped
  when the first is the larger one.\<close>

definition substring :: "string \<Rightarrow> int \<Rightarrow> int \<Rightarrow> string" where
  "substring s start end =
     (let finalStart = clamp_index s start;
          finalEnd = clamp_index s end;
          from = min finalStart finalEnd;
          to = max finalStart finalEnd
      in take (to - from) (drop from s))"

text \<open>\<open>s.substring(start)\<close>: the end defaults to the length.\<close>

definition substring_from :: "string \<Rightarrow> int \<Rightarrow> string" where
  "substring_from s start = substring s start (int (length s))"

subsection \<open>WalletCard: formatAddress\<close>

definition formatAddress :: "string \<Rightarrow> string" where
  "formatAddress addr =
     (if length addr \<le> 10 then addr
      else substring addr 0 6 @ ''...'' @ substring_from addr (int (length addr) - 4))"

subsection \<open>JavaScript Numbers\<close>

text \<open>
  A Number is an IEEE 754 double. A finite double is kept as the rational it denotes; the
  sign of zero is not kept, since nothing in \<open>getBalance\<close> can observe it (\<open>toFixed\<close>
  prints both zeros alike). Integers that can be large are \<^typ>\<open>int\<close>.
\<close>

datatype number = NaN | PosInfinity | NegInfinity | Finite rat

text \<open>The number of binary digits of a positive integer.\<close>

function bit_length :: "int \<Rightarrow> int" where
  "bit_length n = (if n \<le> 0 then 0 else 1 + bit_length (n div 2))"
  by pat_completeness auto
termination
  by (relation "measure nat") auto

declare bit_length.simps [simp del]

text \<open>For \<open>x > 0\<close>, the integer \<open>k\<close> with \<open>2\<^sup>k \<le> x < 2\<^sup>k\<^sup>+\<^sup>1\<close>.\<close>

definition floor_log2 :: "rat \<Rightarrow> int" where
  "floor_log2 x =
     (let (a, b) = quotient_of x;
          d = bit_length a - bit_length b
      in if 2 powi d \<le> x then d else d - 1)"

definition round_half_even :: "rat \<Rightarrow> int" where
  "round_half_even x =
     (let n = \<lfloor>x\<rfloor>; r = x - of_int n
      in if r < 1 / 2 then n else if 1 / 2 < r then n + 1
         else if even n then n else n + 1)"

text \<open>
  The Number value for a real \<open>x\<close> (ECMAScript's conversion of a mathematical value to a
  Number): the nearest double, a tie going to the even significand, and an infinity once
  the rounded value reaches \<open>2\<^sup>1\<^sup>0\<^sup>2\<^sup>4\<close>, that is, once its binary exponent exceeds 1023.
  The significand has 53 bits; below \<open>2\<^sup>-\<^sup>1\<^sup>0\<^sup>2\<^sup>2\<close> the spacing stays \<open>2\<^sup>-\<^sup>1\<^sup>0\<^sup>7\<^sup>4\<close>.
\<close>

definition Number_value :: "rat \<Rightarrow> number" where
  "Number_value x =
     (if x = 0 then Finite 0
      else let e = max (floor_log2 \<bar>x\<bar> - 52) (- 1074);
               y = of_int (round_half_even (\<bar>x\<bar> / 2 powi e)) * 2 powi e
           in if 1023 < floor_log2 y then (if x < 0 then NegInfinity else PosInfinity)
              else Finite (sgn x * y))"

text \<open>\<open>x / d\<close> for a finite double \<open>d > 0\<close>, here the literal \<open>1e18\<close>, which is exactly
  \<open>10\<^sup>1\<^sup>8\<close>: the rounded quotient; \<open>NaN\<close> and the infinities stay as they are.\<close>

definition number_div :: "number \<Rightarrow> rat \<Rightarrow> number" where
  "number_div x d = (case x of Finite r \<Rightarrow> Number_value (r / d) | _ \<Rightarrow> x)"

subsection \<open>parseInt with radix 16\<close>

text \<open>The white space code units below 256: TAB, LF, VT, FF, CR, SP, NBSP.\<close>

definition is_white_space :: "char \<Rightarrow> bool" where
  "is_white_space c =
     (c \<in> set [CHR 0x09, CHR 0x0A, CHR 0x0B, CHR 0x0C, CHR 0x0D, CHR 0x20, CHR 0xA0])"

definition hex_digit_value :: "char \<Rightarrow> int option" where
  "hex_digit_value c =
     (if c \<in> set ''0123456789'' then Some (of_char c - 48)
      else if c \<in> set ''abcdef'' then Some (of_char c - 87)
      else if c \<in> set ''ABCDEF'' then Some (of_char c - 55)
      else None)"

definition is_hex_digit :: "char \<Rightarrow> bool" where
  "is_hex_digit c = (hex_digit_value c \<noteq> None)"

definition hex_value :: "string \<Rightarrow> int" where
  "hex_value Z = foldl (\<lambda>acc c. 16 * acc + the (hex_digit_value c)) 0 Z"

text \<open>
  \<open>parseInt(inputString, 16)\<close>: leading white space is skipped, a sign is read, a prefix
  \<open>0x\<close> or \<open>0X\<close> is removed, the longest run of hex digits is taken, and what follows is
  ignored. No digit gives \<open>NaN\<close>. For radix 16 the value of the digits is exact before it
  is rounded to a Number.
\<close>

definition parseInt16 :: "string \<Rightarrow> number" where
  "parseInt16 inputString =
     (let S = dropWhile is_white_space inputString;
          sign = (if S \<noteq> [] \<and> hd S = CHR ''-'' then - 1 else 1 :: int);
          S = (if S \<noteq> [] \<and> (hd S = CHR ''+'' \<or> hd S = CHR ''-'') then tl S else S);
          S = (if take 2 S = ''0x'' \<or> take 2 S = ''0X'' then drop 2 S else S);
          Z = takeWhile is_hex_digit S
      in if Z = [] then NaN else Number_value (of_int (sign * hex_value Z)))"

subsection \<open>Number.prototype.toFixed\<close>

definition digit_char :: "int \<Rightarrow> char" where
  "digit_char d = ''0123456789'' ! nat d"

function decimal_digits :: "int \<Rightarrow> string" where
  "decimal_digits n =
     (if n \<le> 0 then [] else decimal_digits (n div 10) @ [digit_char (n mod 10)])"
  by pat_completeness auto
termination
  by (relation "measure nat") auto

declare decimal_digits.simps [simp del]

text \<open>The decimal representation of an integer \<open>n \<ge> 0\<close>.\<close>

definition decimal :: "int \<Rightarrow> string" where
  "decimal n = (if n = 0 then ''0'' else decimal_digits n)"

text \<open>Reading a string of decimal digits back as an integer; used to state what a
  printed number is worth.\<close>

definition is_decimal_digit :: "char \<Rightarrow> bool" where
  "is_decimal_digit c = (c \<in> set ''0123456789'')"

definition decimal_value :: "string \<Rightarrow> int" where
  "decimal_value ds = foldl (\<lambda>acc c. 10 * acc + (of_char c - 48)) 0 ds"

text \<open>
  Number-to-string conversion of a finite \<open>x \<ge> 10\<^sup>2\<^sup>1\<close>, the only range in which
  \<open>toFixed\<close> uses it. ECMAScript asks for integers \<open>n\<close>, \<open>k\<close>, \<open>s\<close> with
  \<open>10\<^sup>k\<^sup>-\<^sup>1 \<le> s < 10\<^sup>k\<close>, the Number value of \<open>s \<times> 10\<^sup>n\<^sup>-\<^sup>k\<close> being \<open>x\<close>, and \<open>k\<close> as small as
  possible; among several \<open>s\<close> the one closest to \<open>x\<close> is taken (the standard recommends
  it, and engines do it). As \<open>n > 21\<close> the result is in exponent notation. With \<open>d\<close> the
  number of digits of \<open>x\<close>, \<open>n\<close> is \<open>d\<close>, or \<open>d + 1\<close> when \<open>10\<^sup>d\<close> itself rounds to \<open>x\<close>;
  17 digits always suffice.
\<close>

definition digits_candidates :: "rat \<Rightarrow> nat \<Rightarrow> nat \<Rightarrow> int list" where
  "digits_candidates x n k =
     (let lo = \<lfloor>x / 10 ^ (n - k)\<rfloor>
      in filter (\<lambda>s. 10 ^ (k - 1) \<le> s \<and> s < 10 ^ k
                    \<and> Number_value (of_int s * 10 ^ (n - k)) = Finite x) [lo, lo + 1])"

definition closest_candidate :: "rat \<Rightarrow> nat \<Rightarrow> nat \<Rightarrow> int list \<Rightarrow> int option" where
  "closest_candidate x n k ss =
     (case ss of
        [] \<Rightarrow> None
      | [s] \<Rightarrow> Some s
      | s # t # _ \<Rightarrow>
          (let ds = \<bar>of_int s * 10 ^ (n - k) - x\<bar>; dt = \<bar>of_int t * 10 ^ (n - k) - x\<bar>
           in if ds < dt then Some s else if dt < ds then Some t
              else if even s then Some s else Some t))"

fun shortest_digits :: "rat \<Rightarrow> nat \<Rightarrow> nat list \<Rightarrow> (nat \<times> int) option" where
  "shortest_digits x n [] = None"
| "shortest_digits x n (k # ks) =
     (case closest_candidate x n k (digits_candidates x n k) of
        Some s \<Rightarrow> Some (k, s)
      | None \<Rightarrow> shortest_digits x n ks)"

definition exponential_notation :: "nat \<Rightarrow> nat \<Rightarrow> int \<Rightarrow> string" where
  "exponential_notation n k s =
     (let ds = decimal s; e = ''e+'' @ decimal (int n - 1)
      in if k = 1 then ds @ e else take 1 ds @ ''.'' @ drop 1 ds @ e)"

definition Number_toString_large :: "rat \<Rightarrow> string" where
  "Number_toString_large x =
     (let d = length (decimal \<lfloor>x\<rfloor>)
      in if Number_value (10 ^ d) = Finite x then exponential_notation (d + 1) 1 1
         else (case shortest_digits x d [1 ..< 18] of
                 Some (k, s) \<Rightarrow> exponential_notation d k s
               | None \<Rightarrow> exponential_notation d 17 \<lfloor>x / 10 ^ (d - 17)\<rfloor>))"

text \<open>
  \<open>v.toFixed(f)\<close> for \<open>0 \<le> f \<le> 100\<close>. A value that is not finite, or is \<open>10\<^sup>2\<^sup>1\<close> or more in
  magnitude, is printed as by \<open>String(v)\<close>. Otherwise \<open>n\<close> is the integer for which
  \<open>n / 10\<^sup>f\<close> is closest to the exact value of the double, the larger one on a tie, and
  its digits are printed with \<open>f\<close> of them after the point.
\<close>

definition toFixed :: "number \<Rightarrow> nat \<Rightarrow> string" where
  "toFixed v f =
     (case v of
        NaN \<Rightarrow> ''NaN''
      | PosInfinity \<Rightarrow> ''Infinity''
      | NegInfinity \<Rightarrow> ''-Infinity''
      | Finite r \<Rightarrow>
          (let s = (if r < 0 then ''-'' else []);
               x = \<bar>r\<bar>
           in if 10 ^ 21 \<le> x then s @ Number_toString_large x
              else
                (let n = \<lfloor>x * 10 ^ f + 1 / 2\<rfloor>;
                     m = decimal n;
                     m = (if f \<noteq> 0 then
                            (let k = length m;
                                 m = (if k \<le> f then replicate (f + 1 - k) CHR ''0'' @ m else m);
                                 k = (if k \<le> f then f + 1 else k)
                             in take (k - f) m @ ''.'' @ drop (k - f) m)
                          else m)
                 in s @ m)))"

subsection \<open>The provider\<close>

text \<open>
  A value thrown by the provider or by the hook is an \<open>Error\<close> object; \<open>code\<close> is absent
  on a plain \<open>Error\<close>, such as the hook's own \<open>Ethereum provider not available\<close>.
\<close>

datatype EthereumRpcError = RpcError (code: "int option") (message: string)

text \<open>
  \<open>window.ethereum\<close>. Each field below is the outcome of \<open>request\<close> for one method, at the
  type the hook casts it to: \<open>Inl\<close> a rejection, \<open>Inr\<close> the result. \<open>eth_getBalance\<close> takes
  the address (the block tag is always \<open>latest\<close>), \<open>wallet_switchEthereumChain\<close> the chain
  identifier. An operation asks each method at most once, so one answer for each suffices.
\<close>

record EthereumProvider =
  isMetaMask :: bool
  eth_requestAccounts :: "EthereumRpcError + string list"
  eth_accounts :: "EthereumRpcError + string list"
  eth_chainId :: "EthereumRpcError + string"
  eth_getBalance :: "string \<Rightarrow> EthereumRpcError + string"
  wallet_switchEthereumChain :: "string \<Rightarrow> EthereumRpcError + unit"

text \<open>
  The window: the provider, if any, and whether \<open>localStorage.setItem\<close> stores what it is
  given. When it does not, it throws (\<open>QuotaExceededError\<close>: the store is full or
  disabled). \<open>getItem\<close> and \<open>removeItem\<close> never throw.
\<close>

record window =
  ethereum :: "EthereumProvider option"
  setItem_ok :: bool

definition isMetamaskInstalled :: "window \<Rightarrow> bool" where
  "isMetamaskInstalled w = (case ethereum w of None \<Rightarrow> False | Some p \<Rightarrow> isMetaMask p)"

definition provider_not_available :: EthereumRpcError where
  "provider_not_available = RpcError None ''Ethereum provider not available''"

text \<open>What \<open>setItem\<close> throws, a \<open>DOMException\<close> with the legacy code 22.\<close>

definition quota_exceeded :: EthereumRpcError where
  "quota_exceeded = RpcError (Some 22) ''QuotaExceededError''"

subsection \<open>The session record and the persisted flag\<close>

record WalletState =
  address :: "string option"
  isConnected :: bool
  isConnecting :: bool
  error :: "string option"
  chainId :: "string option"
  balance :: "string option"

text \<open>The hook's state cell together with the one \<open>localStorage\<close> item it uses,
  \<open>walletConnected\<close> (\<open>None\<close> when the key is not stored).\<close>

record world =
  walletState :: WalletState
  walletConnected :: "string option"

definition initialWalletState :: WalletState where
  "initialWalletState =
     \<lparr>address = None, isConnected = False, isConnecting = False,
      error = None, chainId = None, balance = None\<rparr>"

text \<open>\<open>setWalletState(prev => f(prev))\<close>; \<open>setWalletState(v)\<close> is \<open>setWalletState (\<lambda>_. v)\<close>.\<close>

definition setWalletState :: "(WalletState \<Rightarrow> WalletState) \<Rightarrow> world \<Rightarrow> world" where
  "setWalletState f s = s\<lparr>walletState := f (walletState s)\<rparr>"

subsection \<open>The hook's operations\<close>

text \<open>
  An operation is a function of the state it starts in and of the window it talks to; it
  returns the state once its promise has settled, nothing else having run in between.
  The callbacks take \<open>isMetamaskInstalled\<close> from the last render, so it is passed to them
  as \<open>installed\<close>, while \<open>window.ethereum\<close> is read when they run. A \<open>try\<close> block is a
  value \<open>tried\<close> of a sum type: \<open>Inl\<close> what was thrown, \<open>Inr\<close> the state at its end.

  What the model takes for granted: the hook runs in a browser, so \<open>window\<close> exists;
  state updates are applied in the order they are made; \<open>console.error\<close> has no effect on
  the state.
\<close>

definition getBalance :: "window \<Rightarrow> string \<Rightarrow> string option" where
  "getBalance w addr =
     (case ethereum w of
        None \<Rightarrow> None
      | Some p \<Rightarrow>
          (case eth_getBalance p addr of
             Inl e \<Rightarrow> None
           | Inr balanceHex \<Rightarrow>
               (let balanceWei = parseInt16 balanceHex;
                    balanceEth = number_div balanceWei (10 ^ 18)
                in Some (toFixed balanceEth 4))))"

text \<open>
  In \<open>updateWalletState\<close> the \<open>catch\<close> block can be reached after the update of the
  \<open>try\<close> block has been made, when \<open>setItem\<close> throws; so what is thrown is kept together
  with the state at that moment, and the \<open>catch\<close> block writes on top of it.
\<close>

definition updateWalletState :: "window \<Rightarrow> string \<Rightarrow> world \<Rightarrow> world" where
  "updateWalletState w addr s =
     (let tried =
            (case ethereum w of
               None \<Rightarrow> Inl (provider_not_available, s)
             | Some p \<Rightarrow>
                 (case eth_chainId p of
                    Inl e \<Rightarrow> Inl (e, s)
                  | Inr cid \<Rightarrow>
                      (let bal = getBalance w addr;
                           s1 = setWalletState (\<lambda>prev. prev
                                  \<lparr>address := Some addr, chainId := Some cid, balance := bal,
                                   isConnected := True, isConnecting := False,
                                   error := None\<rparr>) s
                       in if setItem_ok w then Inr (s1\<lparr>walletConnected := Some ''true''\<rparr>)
                          else Inl (quota_exceeded, s1))))
      in case tried of
           Inr s2 \<Rightarrow> s2
         | Inl (e, s2) \<Rightarrow>
             setWalletState (\<lambda>prev. prev
               \<lparr>error := Some ''Failed to update wallet information'',
                isConnecting := False\<rparr>) s2)"

text \<open>\<open>connect\<close> up to its first \<open>await\<close>: the state shown while the account request is
  pending.\<close>

definition connect_begin :: "world \<Rightarrow> world" where
  "connect_begin s = setWalletState (\<lambda>prev. prev\<lparr>isConnecting := True, error := None\<rparr>) s"

text \<open>The \<open>try\<close>/\<open>catch\<close> of \<open>connect\<close>, run from the state \<open>connect_begin\<close> has left.\<close>

definition connect_resume :: "window \<Rightarrow> world \<Rightarrow> world" where
  "connect_resume w s =
     (let tried =
            (case ethereum w of
               None \<Rightarrow> Inl provider_not_available
             | Some p \<Rightarrow>
                 (case eth_requestAccounts p of
                    Inl e \<Rightarrow> Inl e
                  | Inr accounts \<Rightarrow>
                      Inr (if 0 < length accounts then updateWalletState w (accounts ! 0) s
                           else s)))
      in case tried of
           Inr s1 \<Rightarrow> s1
         | Inl rpcError \<Rightarrow>
             (let errorMessage =
                    (if code rpcError = Some 4001 then ''Connection rejected by user''
                     else ''Failed to connect wallet'')
              in setWalletState (\<lambda>prev. prev
                   \<lparr>error := Some errorMessage, isConnecting := False\<rparr>) s))"

definition connect :: "bool \<Rightarrow> window \<Rightarrow> world \<Rightarrow> world" where
  "connect installed w s =
     (if \<not> installed
      then setWalletState (\<lambda>prev. prev\<lparr>error := Some ''MetaMask is not installed''\<rparr>) s
      else connect_resume w (connect_begin s))"

definition disconnect :: "world \<Rightarrow> world" where
  "disconnect s =
     (let s1 = setWalletState (\<lambda>_.
                 \<lparr>address = None, isConnected = False, isConnecting = False,
                  error = None, chainId = None, balance = None\<rparr>) s
      in s1\<lparr>walletConnected := None\<rparr>)"

text \<open>\<open>if (walletState.address)\<close> is false for \<open>null\<close> and for the empty string.\<close>

definition switchNetwork :: "window \<Rightarrow> string \<Rightarrow> world \<Rightarrow> world" where
  "switchNetwork w cid s =
     (let tried =
            (case ethereum w of
               None \<Rightarrow> Inl provider_not_available
             | Some p \<Rightarrow>
                 (case wallet_switchEthereumChain p cid of
                    Inl e \<Rightarrow> Inl e
                  | Inr _ \<Rightarrow>
                      Inr (case address (walletState s) of
                             None \<Rightarrow> s
                           | Some a \<Rightarrow> if a \<noteq> [] then updateWalletState w a s else s)))
      in case tried of
           Inr s1 \<Rightarrow> s1
         | Inl rpcError \<Rightarrow>
             (let errorMessage =
                    (if code rpcError = Some 4902 then ''This network is not added to MetaMask''
                     else if code rpcError = Some 4001 then ''Network switch rejected by user''
                     else ''Failed to switch network'')
              in setWalletState (\<lambda>prev. prev\<lparr>error := Some errorMessage\<rparr>) s))"

definition autoConnect :: "bool \<Rightarrow> window \<Rightarrow> world \<Rightarrow> world" where
  "autoConnect installed w s =
     (let wasConnected = (walletConnected s = Some ''true'')
      in case ethereum w of
           None \<Rightarrow> s
         | Some p \<Rightarrow>
             if wasConnected \<and> installed then
               (case eth_accounts p of
                  Inl e \<Rightarrow> s\<lparr>walletConnected := None\<rparr>
                | Inr accounts \<Rightarrow>
                    if 0 < length accounts then updateWalletState w (accounts ! 0) s else s)
             else s)"

text \<open>The two listeners are installed only when \<open>installed\<close> holds and \<open>window.ethereum\<close>
  is there; otherwise the notification reaches no handler.\<close>

definition handleAccountsChanged :: "bool \<Rightarrow> window \<Rightarrow> string list \<Rightarrow> world \<Rightarrow> world" where
  "handleAccountsChanged installed w accountArray s =
     (if \<not> installed \<or> ethereum w = None then s
      else if length accountArray = 0 then disconnect s
      else if Some (accountArray ! 0) \<noteq> address (walletState s)
           then updateWalletState w (accountArray ! 0) s
      else s)"

text \<open>\<open>window.location.reload()\<close>: the hook is mounted again with its initial state, the
  stored item survives, and the mount effect runs \<open>autoConnect\<close>.\<close>

definition handleChainChanged :: "bool \<Rightarrow> window \<Rightarrow> world \<Rightarrow> world" where
  "handleChainChanged installed w s =
     (if \<not> installed \<or> ethereum w = None then s
      else autoConnect (isMetamaskInstalled w) w
             \<lparr>walletState = initialWalletState, walletConnected = walletConnected s\<rparr>)"

subsection \<open>Sequences of operations and notifications\<close>

text \<open>
  \<open>ConnectBegin\<close> and \<open>ConnectResume\<close> are the two halves of a \<open>connect()\<close> that is
  overtaken by something else while its account request is pending; \<open>Connect\<close> is the
  call with nothing in between. No other operation writes the state before its last
  \<open>await\<close>, so the others need no halves. Every event brings its own window, since the
  provider may answer differently each time.
\<close>

datatype event =
    Connect bool window
  | ConnectBegin
  | ConnectResume window
  | Disconnect
  | SwitchNetwork window string
  | AutoConnect bool window
  | AccountsChanged bool window "string list"
  | ChainChanged bool window

fun run :: "event \<Rightarrow> world \<Rightarrow> world" where
  "run (Connect installed w) s = connect installed w s"
| "run ConnectBegin s = connect_begin s"
| "run (ConnectResume w) s = connect_resume w s"
| "run Disconnect s = disconnect s"
| "run (SwitchNetwork w cid) s = switchNetwork w cid s"
| "run (AutoConnect installed w) s = autoConnect installed w s"
| "run (AccountsChanged installed w accounts) s = handleAccountsChanged installed w accounts s"
| "run (ChainChanged installed w) s = handleChainChanged installed w s"

fun runs :: "event list \<Rightarrow> world \<Rightarrow> world" where
  "runs [] s = s"
| "runs (ev # evs) s = runs evs (run ev s)"

text \<open>The state a freshly mounted hook starts in, whatever the store holds.\<close>

definition initial_world :: "string option \<Rightarrow> world" where
  "initial_world flag = \<lparr>walletState = initialWalletState, walletConnected = flag\<rparr>"

definition starts_connect :: "event \<Rightarrow> bool" where
  "starts_connect ev = (case ev of Connect _ _ \<Rightarrow> True | ConnectBegin \<Rightarrow> True | _ \<Rightarrow> False)"

text \<open>Along the sequence, \<open>connect()\<close> is only ever called in a state that is not
  connected (the card offers its connect button only then).\<close>

fun connect_only_when_disconnected :: "event list \<Rightarrow> world \<Rightarrow> bool" where
  "connect_only_when_disconnected [] s = True"
| "connect_only_when_disconnected (ev # evs) s =
     ((starts_connect ev \<longrightarrow> \<not> isConnected (walletState s))
      \<and> connect_only_when_disconnected evs (run ev s))"

subsection \<open>Sample providers\<close>

text \<open>A wallet that grants access to one account holding one ether on chain \<open>0x1\<close>.\<close>

definition granting_provider :: EthereumProvider where
  "granting_provider =
     \<lparr>isMetaMask = True,
      eth_requestAccounts = Inr [''0x52908400098527886E0F7030069857D2E4169EE7''],
      eth_accounts = Inr [''0x52908400098527886E0F7030069857D2E4169EE7''],
      eth_chainId = Inr ''0x1'',
      eth_getBalance = (\<lambda>_. Inr ''0xde0b6b3a7640000''),
      wallet_switchEthereumChain = (\<lambda>_. Inr ())\<rparr>"

definition granting_window :: window where
  "granting_window = \<lparr>ethereum = Some granting_provider, setItem_ok = True\<rparr>"

text \<open>The same wallet when the user declines the prompt (code 4001).\<close>

definition declining_window :: window where
  "declining_window =
     \<lparr>ethereum = Some (granting_provider
        \<lparr>eth_requestAccounts := Inl (RpcError (Some 4001) ''User rejected the request.'')\<rparr>),
      setItem_ok = True\<rparr>"

text \<open>The same wallet answering the account request with an empty list.\<close>

definition empty_list_window :: window where
  "empty_list_window =
     \<lparr>ethereum = Some (granting_provider\<lparr>eth_requestAccounts := Inr []\<rparr>),
      setItem_ok = True\<rparr>"

text \<open>The same wallet when the chain identifier cannot be read.\<close>

definition chain_failing_window :: window where
  "chain_failing_window =
     \<lparr>ethereum = Some (granting_provider
        \<lparr>eth_chainId := Inl (RpcError (Some (- 32603)) ''Internal JSON-RPC error.'')\<rparr>),
      setItem_ok = True\<rparr>"

text \<open>The same wallet when it does not know the chain it is asked to switch to
  (code 4902).\<close>

definition unknown_chain_window :: window where
  "unknown_chain_window =
     \<lparr>ethereum = Some (granting_provider
        \<lparr>wallet_switchEthereumChain :=
           (\<lambda>_. Inl (RpcError (Some 4902) ''Unrecognized chain ID.''))\<rparr>),
      setItem_ok = True\<rparr>"

text \<open>The same wallet with an empty account, and with an account holding \<open>10\<^sup>3\<^sup>9\<close> wei.\<close>

definition empty_account_window :: window where
  "empty_account_window =
     \<lparr>ethereum = Some (granting_provider\<lparr>eth_getBalance := (\<lambda>_. Inr ''0x0'')\<rparr>),
      setItem_ok = True\<rparr>"

definition huge_account_window :: window where
  "huge_account_window =
     \<lparr>ethereum = Some (granting_provider
        \<lparr>eth_getBalance := (\<lambda>_. Inr ''0x2f050fe938943acc45f65568000000000'')\<rparr>),
      setItem_ok = True\<rparr>"

text \<open>The same wallet when the balance cannot be read.\<close>

definition balance_failing_window :: window where
  "balance_failing_window =
     \<lparr>ethereum = Some (granting_provider
        \<lparr>eth_getBalance := (\<lambda>_. Inl (RpcError (Some (- 32000)) ''header not found''))\<rparr>),
      setItem_ok = True\<rparr>"

text \<open>The same wallet in a browser whose store refuses every write.\<close>

definition full_store_window :: window where
  "full_store_window = \<lparr>ethereum = Some granting_provider, setItem_ok = False\<rparr>"

text \<open>A browser without any wallet.\<close>

definition bare_window :: window where
  "bare_window = \<lparr>ethereum = None, setItem_ok = True\<rparr>"

text \<open>The state after a first successful \<open>connect()\<close>.\<close>

definition connected_world :: world where
  "connected_world = connect True granting_window (initial_world None)"

section \<open>Properties\<close>

subsection \<open>Auxiliary facts\<close>

lemma updateWalletState_failed:
  assumes "ethereum w = None \<or> (\<exists>p e. ethereum w = Some p \<and> eth_chainId p = Inl e)"
  shows "updateWalletState w addr s =
           setWalletState (\<lambda>prev. prev
             \<lparr>error := Some ''Failed to update wallet information'',
              isConnecting := False\<rparr>) s"
  using assms by (auto simp: updateWalletState_def)

lemma updateWalletState_succeeded:
  assumes "ethereum w = Some p" and "eth_chainId p = Inr cid"
  shows "updateWalletState w addr s =
           (if setItem_ok w
            then (setWalletState (\<lambda>prev. prev
                    \<lparr>address := Some addr, chainId := Some cid, balance := getBalance w addr,
                     isConnected := True, isConnecting := False, error := None\<rparr>) s)
                 \<lparr>walletConnected := Some ''true''\<rparr>
            else setWalletState (\<lambda>prev. prev
                    \<lparr>address := Some addr, chainId := Some cid, balance := getBalance w addr,
                     isConnected := True, isConnecting := False,
                     error := Some ''Failed to update wallet information''\<rparr>) s)"
  using assms by (simp add: updateWalletState_def setWalletState_def)

lemma updateWalletState_flags:
  "\<not> isConnecting (walletState (updateWalletState w addr s))"
  by (simp add: updateWalletState_def setWalletState_def Let_def
      split: option.splits sum.splits)

lemma connect_resume_flags:
  assumes "\<not> (isConnecting (walletState s) \<and> isConnected (walletState s))"
  shows "\<not> (isConnecting (walletState (connect_resume w s))
            \<and> isConnected (walletState (connect_resume w s)))"
  using assms updateWalletState_flags [of w _ s]
  by (simp add: connect_resume_def setWalletState_def Let_def
      split: option.splits sum.splits)

lemma run_flags:
  assumes "\<not> (isConnecting (walletState s) \<and> isConnected (walletState s))"
    and "starts_connect ev \<longrightarrow> \<not> isConnected (walletState s)"
  shows "\<not> (isConnecting (walletState (run ev s)) \<and> isConnected (walletState (run ev s)))"
proof (cases ev)
  case (Connect installed w)
  with assms(2) have off: "\<not> isConnected (walletState s)"
    by (simp add: starts_connect_def)
  have "\<not> (isConnecting (walletState (connect_begin s))
           \<and> isConnected (walletState (connect_begin s)))"
    using off by (simp add: connect_begin_def setWalletState_def)
  then show ?thesis
    using Connect assms(1) connect_resume_flags [of "connect_begin s" w]
    by (simp add: connect_def setWalletState_def)
next
  case ConnectBegin
  with assms(2) show ?thesis
    by (simp add: starts_connect_def connect_begin_def setWalletState_def)
next
  case (ConnectResume w)
  then show ?thesis using assms(1) connect_resume_flags by simp
next
  case Disconnect
  then show ?thesis by (simp add: disconnect_def setWalletState_def)
next
  case (SwitchNetwork w cid)
  then show ?thesis
    using assms(1) updateWalletState_flags [of w _ s]
    by (simp add: switchNetwork_def setWalletState_def Let_def
        split: option.splits sum.splits)
next
  case (AutoConnect installed w)
  then show ?thesis
    using assms(1) updateWalletState_flags [of w _ s]
    by (simp add: autoConnect_def Let_def split: option.splits sum.splits)
next
  case (AccountsChanged installed w accounts)
  then show ?thesis
    using assms(1) updateWalletState_flags [of w _ s]
    by (simp add: handleAccountsChanged_def disconnect_def setWalletState_def)
next
  case (ChainChanged installed w)
  then show ?thesis
    using assms(1) updateWalletState_flags [of w]
    by (simp add: handleChainChanged_def autoConnect_def initialWalletState_def Let_def
        split: option.splits sum.splits)
qed

lemma runs_flags:
  assumes "\<not> (isConnecting (walletState s) \<and> isConnected (walletState s))"
    and "connect_only_when_disconnected evs s"
  shows "\<not> (isConnecting (walletState (runs evs s)) \<and> isConnected (walletState (runs evs s)))"
  using assms
proof (induction evs arbitrary: s)
  case Nil
  then show ?case by simp
next
  case (Cons ev evs)
  from Cons.prems have "\<not> (isConnecting (walletState (run ev s))
                           \<and> isConnected (walletState (run ev s)))"
    using run_flags [of s ev] by simp
  moreover from Cons.prems have "connect_only_when_disconnected evs (run ev s)"
    by simp
  ultimately show ?case
    using Cons.IH [of "run ev s"] by simp
qed

lemma connected_world_eq:
  "connected_world =
     \<lparr>walletState =
        \<lparr>address = Some ''0x52908400098527886E0F7030069857D2E4169EE7'',
         isConnected = True, isConnecting = False, error = None,
         chainId = Some ''0x1'',
         balance = getBalance granting_window ''0x52908400098527886E0F7030069857D2E4169EE7''\<rparr>,
      walletConnected = Some ''true''\<rparr>"
  by (simp add: connected_world_def connect_def connect_begin_def connect_resume_def
      updateWalletState_def setWalletState_def initial_world_def initialWalletState_def
      granting_window_def granting_provider_def)

subsection \<open>Rounding to a double\<close>

lemma bit_length_bounds:
  "0 < n \<Longrightarrow> 1 \<le> bit_length n \<and> 2 ^ nat (bit_length n - 1) \<le> n \<and> n < 2 ^ nat (bit_length n)"
proof (induction n rule: bit_length.induct)
  case (1 n)
  show ?case
  proof (cases "n = 1")
    case True
    then show ?thesis by (simp add: bit_length.simps)
  next
    case False
    with "1.prems" have big: "0 < n div 2" by simp
    from "1.IH" "1.prems" big
    have ih: "1 \<le> bit_length (n div 2)" "2 ^ nat (bit_length (n div 2) - 1) \<le> n div 2"
      "n div 2 < 2 ^ nat (bit_length (n div 2))"
      by simp_all
    have bl: "bit_length n = 1 + bit_length (n div 2)"
      using "1.prems" by (subst bit_length.simps) simp
    have e1: "nat (bit_length n - 1) = Suc (nat (bit_length (n div 2) - 1))"
      using ih(1) bl by simp
    have e2: "nat (bit_length n) = Suc (nat (bit_length (n div 2)))"
      using ih(1) bl by simp
    show ?thesis
      using ih bl unfolding e1 e2 by (simp; linarith)
  qed
qed

lemma bit_length_powi:
  assumes "0 < n"
  shows "(2::rat) powi (bit_length n - 1) \<le> of_int n" and "of_int n < (2::rat) powi bit_length n"
proof -
  from bit_length_bounds [OF assms]
  have one: "1 \<le> bit_length n" and lo: "2 ^ nat (bit_length n - 1) \<le> n"
    and hi: "n < 2 ^ nat (bit_length n)"
    by simp_all
  have "(2::rat) powi (bit_length n - 1) = 2 ^ nat (bit_length n - 1)"
    using one by (simp add: power_int_def)
  also have "\<dots> = of_int (2 ^ nat (bit_length n - 1))" by simp
  also have "\<dots> \<le> of_int n" using lo by (simp only: of_int_le_iff)
  finally show "(2::rat) powi (bit_length n - 1) \<le> of_int n" .
  have "(of_int n :: rat) < of_int (2 ^ nat (bit_length n))"
    using hi by (simp only: of_int_less_iff)
  also have "\<dots> = (2::rat) powi bit_length n"
    using one by (simp add: power_int_def)
  finally show "of_int n < (2::rat) powi bit_length n" .
qed

lemma floor_log2_bounds:
  assumes "0 < x"
  shows "2 powi floor_log2 x \<le> x" and "x < 2 powi (floor_log2 x + 1)"
proof -
  obtain a b where q: "quotient_of x = (a, b)" by (cases "quotient_of x")
  then have b: "0 < b" and x: "x = of_int a / of_int b"
    by (simp_all add: quotient_of_denom_pos quotient_of_div)
  have a: "0 < a"
    using assms b x by (simp add: zero_less_divide_iff)
  define d where "d = bit_length a - bit_length b"
  note A = bit_length_powi [OF a] and B = bit_length_powi [OF b]
  have bpos: "(0::rat) < of_int b" using b by simp
  have "x < 2 powi bit_length a / 2 powi (bit_length b - 1)"
    unfolding x using A(2) B(1) a
    by (intro frac_less) simp_all
  also have "\<dots> = 2 powi (d + 1)"
    by (simp add: d_def power_int_diff [symmetric] algebra_simps)
  finally have up: "x < 2 powi (d + 1)" .
  have "(2::rat) powi (d - 1) = 2 powi (bit_length a - 1) / 2 powi bit_length b"
    by (simp add: d_def power_int_diff [symmetric] algebra_simps)
  also have "\<dots> < x"
    unfolding x using A(1) B(2) bpos
    by (intro frac_less2) simp_all
  finally have low: "2 powi (d - 1) < x" .
  have fl: "floor_log2 x = (if 2 powi d \<le> x then d else d - 1)"
    by (simp add: floor_log2_def q d_def Let_def)
  show "2 powi floor_log2 x \<le> x"
    using low by (simp add: fl)
  show "x < 2 powi (floor_log2 x + 1)"
    using up by (simp add: fl not_le)
qed

lemma round_half_even_near: "\<bar>of_int (round_half_even x) - x\<bar> \<le> 1 / 2"
proof -
  have "of_int \<lfloor>x\<rfloor> \<le> x" "x < of_int \<lfloor>x\<rfloor> + 1" by linarith+
  then show ?thesis
    by (auto simp: round_half_even_def Let_def abs_le_iff)
qed


lemma Number_value_near:
  assumes small: "1 / 2 ^ 1022 \<le> x" and big: "x < 2 ^ 1023"
  shows "\<exists>y. Number_value x = Finite y \<and> \<bar>y - x\<bar> \<le> x / 2 ^ 53"
proof -
  have pos: "0 < x"
    using small by (rule less_le_trans [rotated]) simp
  define k where "k = floor_log2 x"
  define e where "e = k - 52"
  define m where "m = round_half_even (x / 2 powi e)"
  define y where "y = of_int m * (2::rat) powi e"
  note fl = floor_log2_bounds [OF pos, folded k_def]
  have k_low: "- 1022 \<le> k"
  proof (rule ccontr)
    assume "\<not> - 1022 \<le> k"
    then have "k + 1 \<le> - 1022" by simp
    then have "(2::rat) powi (k + 1) \<le> 2 powi (- 1022)"
      by (intro power_int_increasing) simp_all
    also have "\<dots> = 1 / 2 ^ 1022"
      by (simp add: power_int_minus inverse_eq_divide)
    finally show False using fl(2) small by simp
  qed
  have e_max: "max (floor_log2 x - 52) (- 1074) = e"
    using k_low by (simp add: e_def k_def)
  have pe: "(0::rat) < 2 powi e" by simp
  have "\<bar>of_int m - x / 2 powi e\<bar> \<le> 1 / 2"
    unfolding m_def by (rule round_half_even_near)
  then have "\<bar>of_int m - x / 2 powi e\<bar> * 2 powi e \<le> 1 / 2 * 2 powi e"
    using pe by (intro mult_right_mono) simp_all
  moreover have "\<bar>of_int m - x / 2 powi e\<bar> * 2 powi e = \<bar>y - x\<bar>"
  proof -
    have "\<bar>of_int m - x / 2 powi e\<bar> * 2 powi e = \<bar>(of_int m - x / 2 powi e) * 2 powi e\<bar>"
      using pe by (simp add: abs_mult)
    also have "(of_int m - x / 2 powi e) * 2 powi e = y - x"
      using pe by (simp add: y_def left_diff_distrib)
    finally show ?thesis .
  qed
  ultimately have err: "\<bar>y - x\<bar> \<le> 2 powi e / 2" by simp
  have "(2::rat) powi e = 2 powi k / 2 ^ 52"
    by (simp add: e_def power_int_diff)
  also have "\<dots> \<le> x / 2 ^ 52"
    using fl(1) by (intro divide_right_mono) simp_all
  finally have "(2::rat) powi e / 2 \<le> x / 2 ^ 52 / 2"
    by (intro divide_right_mono) simp_all
  also have "x / 2 ^ 52 / 2 = x / 2 ^ 53" by simp
  finally have rel: "\<bar>y - x\<bar> \<le> x / 2 ^ 53"
    using err by simp
  have "x / 2 ^ 53 \<le> x / 2"
    using pos by (intro divide_left_mono) simp_all
  with rel have "\<bar>y - x\<bar> \<le> x / 2" by simp
  then have y_up: "y \<le> 2 * x" and y_pos: "0 < y"
    using pos by linarith+
  have no_overflow: "\<not> 1023 < floor_log2 y"
  proof
    assume "1023 < floor_log2 y"
    then have "(2::rat) powi 1024 \<le> 2 powi floor_log2 y"
      by (intro power_int_increasing) simp_all
    also have "\<dots> \<le> y"
      using y_pos by (rule floor_log2_bounds)
    also have "\<dots> \<le> 2 * x" by (rule y_up)
    also have "\<dots> < 2 * 2 ^ 1023" using big by simp
    finally show False by simp
  qed
  have "Number_value x = Finite y"
    using pos no_overflow
    by (simp add: Number_value_def e_max Let_def y_def m_def)
  with rel show ?thesis by blast
qed

subsection \<open>Hex digits in, decimal digits out\<close>

lemma hex_digit_value_range:
  assumes "is_hex_digit c"
  shows "0 \<le> the (hex_digit_value c) \<and> the (hex_digit_value c) < 16"
  using assms by (auto simp: is_hex_digit_def hex_digit_value_def split: if_splits)

lemma hex_value_snoc: "hex_value (ds @ [c]) = 16 * hex_value ds + the (hex_digit_value c)"
  by (simp add: hex_value_def)

lemma hex_value_bounds:
  "list_all is_hex_digit ds \<Longrightarrow> 0 \<le> hex_value ds \<and> hex_value ds < 16 ^ length ds"
proof (induction ds rule: rev_induct)
  case Nil
  then show ?case by (simp add: hex_value_def)
next
  case (snoc c ds)
  then have ih: "0 \<le> hex_value ds" "hex_value ds < 16 ^ length ds"
    and c: "0 \<le> the (hex_digit_value c)" "the (hex_digit_value c) < 16"
    using hex_digit_value_range [of c] by simp_all
  from ih(2) have "hex_value ds + 1 \<le> 16 ^ length ds" by simp
  then have "16 * (hex_value ds + 1) \<le> 16 * 16 ^ length ds" by simp
  with ih c show ?case by (simp add: hex_value_snoc)
qed

lemma parseInt16_hex:
  assumes "ds \<noteq> []" and "list_all is_hex_digit ds"
  shows "parseInt16 (''0x'' @ ds) = Number_value (of_int (hex_value ds))"
proof -
  have all: "takeWhile is_hex_digit ds = ds"
    using assms(2) by (simp add: takeWhile_eq_all_conv list_all_iff)
  show ?thesis
    using assms(1) by (simp add: parseInt16_def is_white_space_def all)
qed

lemma digit_char_props:
  assumes "0 \<le> d" and "d < 10"
  shows "is_decimal_digit (digit_char d)" and "of_char (digit_char d) - 48 = d"
proof -
  from assms have "d = 0 \<or> d = 1 \<or> d = 2 \<or> d = 3 \<or> d = 4 \<or> d = 5 \<or> d = 6 \<or> d = 7
      \<or> d = 8 \<or> d = 9"
    by presburger
  then show "is_decimal_digit (digit_char d)" and "of_char (digit_char d) - 48 = d"
    by (auto simp: digit_char_def is_decimal_digit_def)
qed

lemma decimal_value_snoc: "decimal_value (ds @ [c]) = 10 * decimal_value ds + (of_char c - 48)"
  by (simp add: decimal_value_def)

lemma decimal_digits_props:
  "0 < n \<Longrightarrow> decimal_digits n \<noteq> [] \<and> list_all is_decimal_digit (decimal_digits n)
     \<and> decimal_value (decimal_digits n) = n"
proof (induction n rule: decimal_digits.induct)
  case (1 n)
  have unfold: "decimal_digits n = decimal_digits (n div 10) @ [digit_char (n mod 10)]"
    using "1.prems" by (subst decimal_digits.simps) simp
  have last: "is_decimal_digit (digit_char (n mod 10))"
    "of_char (digit_char (n mod 10)) - 48 = n mod 10"
    by (simp_all add: digit_char_props)
  show ?case
  proof (cases "0 < n div 10")
    case True
    with "1.IH" "1.prems" have "list_all is_decimal_digit (decimal_digits (n div 10))"
      and "decimal_value (decimal_digits (n div 10)) = n div 10"
      by simp_all
    then show ?thesis
      using last by (simp add: unfold decimal_value_snoc)
  next
    case False
    with "1.prems" have small: "n div 10 = 0" by simp
    have "decimal_digits (n div 10) = []"
      unfolding small by (subst decimal_digits.simps) simp
    then show ?thesis
      using last small by (simp add: unfold decimal_value_def)
  qed
qed

lemma decimal_props:
  assumes "0 \<le> n"
  shows "decimal n \<noteq> []" and "list_all is_decimal_digit (decimal n)"
    and "decimal_value (decimal n) = n"
  using assms decimal_digits_props [of n]
  by (auto simp: decimal_def is_decimal_digit_def decimal_value_def)

lemma decimal_value_zeros: "decimal_value (replicate j CHR ''0'' @ m) = decimal_value m"
proof -
  have "foldl (\<lambda>acc c. 10 * acc + (of_char c - 48)) (0::int) (replicate j CHR ''0'') = 0"
    by (induction j) simp_all
  then show ?thesis by (simp add: decimal_value_def)
qed

lemma toFixed_4:
  assumes "0 \<le> q" and "q < 10 ^ 21"
  shows "\<exists>ip fp. toFixed (Finite q) 4 = ip @ ''.'' @ fp \<and> ip \<noteq> [] \<and> length fp = 4
           \<and> list_all is_decimal_digit (ip @ fp)
           \<and> decimal_value (ip @ fp) = \<lfloor>q * 10 ^ 4 + 1 / 2\<rfloor>"
proof -
  define n where "n = \<lfloor>q * 10 ^ 4 + 1 / 2\<rfloor>"
  define m where "m = (if length (decimal n) \<le> 4
                       then replicate (5 - length (decimal n)) CHR ''0'' @ decimal n
                       else decimal n)"
  define k where "k = (if length (decimal n) \<le> 4 then 5 else length (decimal n))"
  have n0: "0 \<le> n"
    using assms(1) by (simp add: n_def)
  note dec = decimal_props [OF n0]
  have len: "length m = k"
    by (simp add: m_def k_def)
  have k5: "5 \<le> k"
    by (simp add: k_def)
  have "is_decimal_digit CHR ''0''"
    by (simp add: is_decimal_digit_def)
  then have "list_all is_decimal_digit (replicate j CHR ''0'')" for j
    by (simp add: list_all_iff)
  then have digits: "list_all is_decimal_digit m"
    using dec(2) by (simp add: m_def)
  have val: "decimal_value m = n"
    using dec(3) by (simp add: m_def decimal_value_zeros)
  have res: "toFixed (Finite q) 4 = take (k - 4) m @ ''.'' @ drop (k - 4) m"
    unfolding m_def k_def n_def using assms by (simp add: toFixed_def Let_def)
  have "take (k - 4) m \<noteq> []"
    using len k5 by auto
  moreover have "length (drop (k - 4) m) = 4"
    using len k5 by simp
  moreover have "take (k - 4) m @ drop (k - 4) m = m"
    by simp
  ultimately show ?thesis
    using res digits val unfolding n_def by metis
qed

subsection \<open>The balance of an account below \<open>2\<^sup>1\<^sup>2\<^sup>8\<close> wei\<close>

lemma balance_quotient:
  fixes v :: int
  assumes "1 \<le> v" and "v < 2 ^ 128"
  shows "\<exists>q. number_div (Number_value (of_int v)) (10 ^ 18) = Finite q \<and> 0 \<le> q \<and> q < 10 ^ 21
           \<and> \<bar>q - of_int v / 10 ^ 18\<bar> \<le> of_int v / 10 ^ 18 / 2 ^ 51"
proof -
  define X :: rat where "X = of_int v"
  define Y :: rat where "Y = X / 10 ^ 18"
  have X1: "1 \<le> X"
    using assms(1) by (simp add: X_def)
  have "X < of_int (2 ^ 128)"
    unfolding X_def using assms(2) by (simp only: of_int_less_iff)
  then have X2: "X < 2 ^ 128" by simp
  have "\<exists>r. Number_value X = Finite r \<and> \<bar>r - X\<bar> \<le> X / 2 ^ 53"
  proof (rule Number_value_near)
    show "1 / 2 ^ 1022 \<le> X" using X1 by simp
    show "X < 2 ^ 1023" using X2 by simp
  qed
  then obtain r where r: "Number_value X = Finite r" and r_err: "\<bar>r - X\<bar> \<le> X / 2 ^ 53"
    by blast
  have "X / 2 ^ 53 \<le> X / 2"
    using X1 by (intro divide_left_mono) simp_all
  with r_err have r_lo: "X / 2 \<le> r" and r_hi: "r \<le> 2 * X"
    using X1 by linarith+
  have "\<exists>q. Number_value (r / 10 ^ 18) = Finite q \<and> \<bar>q - r / 10 ^ 18\<bar> \<le> r / 10 ^ 18 / 2 ^ 53"
  proof (rule Number_value_near)
    have "(1::rat) / 2 ^ 1022 \<le> 1 / 2 / 10 ^ 18" by simp
    also have "\<dots> \<le> r / 10 ^ 18"
      using r_lo X1 by (intro divide_right_mono) simp_all
    finally show "1 / 2 ^ 1022 \<le> r / 10 ^ 18" .
    have "r / 10 ^ 18 \<le> r / 1"
      using r_lo X1 by (intro divide_left_mono) simp_all
    also have "\<dots> < 2 ^ 1023" using r_hi X2 by simp
    finally show "r / 10 ^ 18 < 2 ^ 1023" .
  qed
  then obtain q where q: "Number_value (r / 10 ^ 18) = Finite q"
    and q_err: "\<bar>q - r / 10 ^ 18\<bar> \<le> r / 10 ^ 18 / 2 ^ 53"
    by blast
  have Y0: "0 < Y"
    using X1 by (simp add: Y_def)
  have rY: "\<bar>r / 10 ^ 18 - Y\<bar> \<le> Y / 2 ^ 53"
  proof -
    have "\<bar>r / 10 ^ 18 - Y\<bar> = \<bar>r - X\<bar> / 10 ^ 18"
      by (simp add: Y_def diff_divide_distrib [symmetric])
    also have "\<dots> \<le> X / 2 ^ 53 / 10 ^ 18"
      using r_err by (intro divide_right_mono) simp_all
    also have "\<dots> = Y / 2 ^ 53" by (simp add: Y_def)
    finally show ?thesis .
  qed
  have "r / 10 ^ 18 \<le> 2 * X / 10 ^ 18"
    using r_hi by (intro divide_right_mono) simp_all
  then have "r / 10 ^ 18 / 2 ^ 53 \<le> 2 * X / 10 ^ 18 / 2 ^ 53"
    by (intro divide_right_mono) simp_all
  also have "\<dots> = Y / 2 ^ 52" by (simp add: Y_def)
  finally have qr: "\<bar>q - r / 10 ^ 18\<bar> \<le> Y / 2 ^ 52"
    using q_err by simp
  have "Y / 2 ^ 52 + Y / 2 ^ 53 \<le> Y / 2 ^ 51"
    using Y0 by simp
  with qr rY have qY: "\<bar>q - Y\<bar> \<le> Y / 2 ^ 51"
    by linarith
  have "Y / 2 ^ 51 \<le> Y / 1"
    using Y0 by (intro divide_left_mono) simp_all
  with qY have q_lo: "0 \<le> q" and q_hi: "q \<le> 2 * Y"
    by linarith+
  have "Y < 2 ^ 128 / 10 ^ 18"
    unfolding Y_def using X2 by (intro divide_strict_right_mono) simp_all
  with q_hi have "q < 10 ^ 21" by simp
  moreover have "number_div (Number_value (of_int v)) (10 ^ 18) = Finite q"
    using r q by (simp add: number_div_def X_def [symmetric])
  ultimately show ?thesis
    using q_lo qY by (auto simp: Y_def X_def)
qed

lemma getBalance_hex:
  assumes p: "ethereum w = Some p"
    and answer: "eth_getBalance p addr = Inr (''0x'' @ ds)"
    and ds: "ds \<noteq> []" "list_all is_hex_digit ds" "length ds \<le> 32"
  shows "\<exists>ip fp. getBalance w addr = Some (ip @ ''.'' @ fp) \<and> ip \<noteq> [] \<and> length fp = 4
           \<and> list_all is_decimal_digit (ip @ fp)
           \<and> \<bar>rat_of_int (decimal_value (ip @ fp)) / 10 ^ 4 - rat_of_int (hex_value ds) / 10 ^ 18\<bar>
               \<le> 1 / (2 * 10 ^ 4) + rat_of_int (hex_value ds) / 10 ^ 18 / 2 ^ 51"
proof -
  define v where "v = hex_value ds"
  define Y :: rat where "Y = of_int v / 10 ^ 18"
  from hex_value_bounds [OF ds(2)] have v0: "0 \<le> v" and "v < 16 ^ length ds"
    by (simp_all add: v_def)
  moreover have "(16::int) ^ length ds \<le> 16 ^ 32"
    using ds(3) by (intro power_increasing) simp_all
  ultimately have v_hi: "v < 2 ^ 128" by simp
  have parse: "parseInt16 (''0x'' @ ds) = Number_value (of_int v)"
    unfolding v_def using ds(1,2) by (rule parseInt16_hex)
  have "\<exists>q. number_div (Number_value (of_int v)) (10 ^ 18) = Finite q \<and> 0 \<le> q \<and> q < 10 ^ 21
          \<and> \<bar>q - Y\<bar> \<le> Y / 2 ^ 51"
  proof (cases "v = 0")
    case True
    then show ?thesis
      by (simp add: Number_value_def number_div_def Y_def)
  next
    case False
    with v0 have "1 \<le> v" by simp
    then show ?thesis
      unfolding Y_def using v_hi by (rule balance_quotient)
  qed
  then obtain q where q: "number_div (Number_value (of_int v)) (10 ^ 18) = Finite q"
    and q0: "0 \<le> q" and q_hi: "q < 10 ^ 21" and qY: "\<bar>q - Y\<bar> \<le> Y / 2 ^ 51"
    by blast
  from toFixed_4 [OF q0 q_hi] obtain ip fp
    where out: "toFixed (Finite q) 4 = ip @ ''.'' @ fp" and shape: "ip \<noteq> []" "length fp = 4"
      "list_all is_decimal_digit (ip @ fp)"
      and val: "decimal_value (ip @ fp) = \<lfloor>q * 10 ^ 4 + 1 / 2\<rfloor>"
    by blast
  define n where "n = \<lfloor>q * 10 ^ 4 + 1 / 2\<rfloor>"
  have "of_int n \<le> q * 10 ^ 4 + 1 / 2" "q * 10 ^ 4 + 1 / 2 < of_int n + 1"
    unfolding n_def by linarith+
  then have "\<bar>of_int n - q * 10 ^ 4\<bar> \<le> 1 / 2"
    by linarith
  then have "\<bar>of_int n - q * 10 ^ 4\<bar> / 10 ^ 4 \<le> 1 / 2 / 10 ^ 4"
    by (intro divide_right_mono) simp_all
  moreover have "\<bar>of_int n - q * 10 ^ 4\<bar> / 10 ^ 4 = \<bar>of_int n / 10 ^ 4 - q\<bar>"
  proof -
    have "of_int n / 10 ^ 4 - q = (of_int n - q * 10 ^ 4) / 10 ^ 4"
      by (simp add: diff_divide_distrib)
    then have "\<bar>of_int n / 10 ^ 4 - q\<bar> = \<bar>of_int n - q * 10 ^ 4\<bar> / \<bar>10 ^ 4\<bar>"
      by (simp only: abs_divide)
    then show ?thesis by simp
  qed
  ultimately have "\<bar>of_int n / 10 ^ 4 - q\<bar> \<le> 1 / (2 * 10 ^ 4)"
    by simp
  with qY have "\<bar>of_int n / 10 ^ 4 - Y\<bar> \<le> 1 / (2 * 10 ^ 4) + Y / 2 ^ 51"
    by linarith
  then have close: "\<bar>rat_of_int (decimal_value (ip @ fp)) / 10 ^ 4 - rat_of_int (hex_value ds) / 10 ^ 18\<bar>
                      \<le> 1 / (2 * 10 ^ 4) + rat_of_int (hex_value ds) / 10 ^ 18 / 2 ^ 51"
    by (simp only: val n_def Y_def v_def)
  have result: "getBalance w addr = Some (ip @ ''.'' @ fp)"
    using p answer parse q out by (simp add: getBalance_def)
  show ?thesis
    using result shape close by blast
qed

subsection \<open>Three balances, evaluated\<close>

lemma parseInt16_one_ether: "parseInt16 ''0xde0b6b3a7640000'' = Finite 1000000000000000000"
  by code_simp

lemma number_div_one_ether: "number_div (Finite 1000000000000000000) (10 ^ 18) = Finite 1"
  by code_simp

lemma toFixed_one: "toFixed (Finite 1) 4 = ''1.0000''"
  by code_simp

lemma parseInt16_zero: "parseInt16 ''0x0'' = Finite 0"
  by code_simp

lemma number_div_zero: "number_div (Finite 0) (10 ^ 18) = Finite 0"
  by code_simp

lemma toFixed_zero: "toFixed (Finite 0) 4 = ''0.0000''"
  by code_simp

lemma parseInt16_huge:
  "parseInt16 ''0x2f050fe938943acc45f65568000000000''
     = Finite 999999999999999939709166371603178586112"
  by code_simp

lemma number_div_huge:
  "number_div (Finite 999999999999999939709166371603178586112) (10 ^ 18)
     = Finite 1000000000000000000000"
  by code_simp

lemma toFixed_huge: "toFixed (Finite 1000000000000000000000) 4 = ''1e+21''"
  by code_simp

subsection \<open>The claims\<close>

text \<open>
  C1, as amended. For every \<open>connect()\<close> call in which the provider returns a non-empty
  account list and the chain-id query that follows succeeds, the resulting session has
  \<open>isConnected = true\<close>, \<open>isConnecting = false\<close> and \<open>address\<close> equal to the first account
  of the returned list. \<open>error\<close> is absent, and the persisted flag is set, when
  \<open>localStorage.setItem\<close> stores the flag; when it throws, \<open>error\<close> is
  \<open>"Failed to update wallet information"\<close> and the persisted flag is as before. (The
  provider is asked only when the hook found it installed.)
\<close>

theorem connect_success:
  assumes "installed"
    and "ethereum w = Some p"
    and "eth_requestAccounts p = Inr accounts"
    and "accounts \<noteq> []"
    and "eth_chainId p = Inr cid"
  shows "isConnected (walletState (connect installed w s))
         \<and> \<not> isConnecting (walletState (connect installed w s))
         \<and> address (walletState (connect installed w s)) = Some (hd accounts)
         \<and> error (walletState (connect installed w s))
             = (if setItem_ok w then None else Some ''Failed to update wallet information'')
         \<and> walletConnected (connect installed w s)
             = (if setItem_ok w then Some ''true'' else walletConnected s)"
proof -
  have first: "accounts ! 0 = hd accounts"
    using assms(4) by (simp add: hd_conv_nth)
  have "connect installed w s = updateWalletState w (hd accounts) (connect_begin s)"
    using assms first by (simp add: connect_def connect_resume_def)
  then show ?thesis
    using updateWalletState_succeeded [OF assms(2) assms(5)]
    by (simp add: setWalletState_def connect_begin_def)
qed

theorem connect_success_witness:
  "isConnected (walletState (connect True granting_window (initial_world None)))
   \<and> \<not> isConnecting (walletState (connect True granting_window (initial_world None)))
   \<and> address (walletState (connect True granting_window (initial_world None)))
       = Some ''0x52908400098527886E0F7030069857D2E4169EE7''
   \<and> error (walletState (connect True granting_window (initial_world None))) = None
   \<and> walletConnected (connect True granting_window (initial_world None)) = Some ''true''
   \<and> isConnected (walletState (connect True full_store_window (initial_world None)))
   \<and> walletConnected (connect True full_store_window (initial_world None)) = None"
  using connect_success [of True granting_window granting_provider
      "[''0x52908400098527886E0F7030069857D2E4169EE7'']" "''0x1''" "initial_world None"]
    connect_success [of True full_store_window granting_provider
      "[''0x52908400098527886E0F7030069857D2E4169EE7'']" "''0x1''" "initial_world None"]
  by (simp add: granting_window_def full_store_window_def granting_provider_def
      initial_world_def)

text \<open>
  C1 as stated fails when the store refuses the write: the account list is not empty and
  the chain-id query succeeds, the session becomes connected, and yet \<open>error\<close> is set,
  because \<open>setItem\<close> throws inside the \<open>try\<close> block of \<open>updateWalletState\<close>.
\<close>

theorem connect_success_counterexample:
  "eth_requestAccounts granting_provider = Inr [''0x52908400098527886E0F7030069857D2E4169EE7'']
   \<and> eth_chainId granting_provider = Inr ''0x1''
   \<and> isConnected (walletState (connect True full_store_window (initial_world None)))
   \<and> error (walletState (connect True full_store_window (initial_world None)))
       = Some ''Failed to update wallet information''"
  by (simp add: connect_def connect_begin_def connect_resume_def updateWalletState_def
      setWalletState_def full_store_window_def granting_provider_def initial_world_def
      initialWalletState_def)

text \<open>
  C2, as amended. In every state reached from the initial state by a sequence of the
  hook's operations and notifications in which \<open>connect()\<close> is only called while
  \<open>isConnected\<close> is false, \<open>isConnecting\<close> and \<open>isConnected\<close> are not both true. This
  covers a \<open>connect()\<close> that is overtaken while its account request is pending.
\<close>

theorem connecting_excludes_connected:
  assumes "connect_only_when_disconnected evs (initial_world flag)"
  shows "\<not> (isConnecting (walletState (runs evs (initial_world flag)))
            \<and> isConnected (walletState (runs evs (initial_world flag))))"
proof -
  have "\<not> (isConnecting (walletState (initial_world flag))
           \<and> isConnected (walletState (initial_world flag)))"
    by (simp add: initial_world_def initialWalletState_def)
  then show ?thesis
    using assms by (rule runs_flags)
qed

theorem connecting_excludes_connected_witness:
  "connect_only_when_disconnected
     [Connect True declining_window, Connect True granting_window,
      SwitchNetwork unknown_chain_window ''0x89'', AccountsChanged True granting_window [],
      ConnectBegin, ConnectResume empty_list_window]
     (initial_world None)
   \<and> \<not> (isConnecting (walletState (runs
            [Connect True declining_window, Connect True granting_window,
             SwitchNetwork unknown_chain_window ''0x89'',
             AccountsChanged True granting_window [],
             ConnectBegin, ConnectResume empty_list_window]
            (initial_world None)))
        \<and> isConnected (walletState (runs
            [Connect True declining_window, Connect True granting_window,
             SwitchNetwork unknown_chain_window ''0x89'',
             AccountsChanged True granting_window [],
             ConnectBegin, ConnectResume empty_list_window]
            (initial_world None))))"
proof -
  have guarded: "connect_only_when_disconnected
     [Connect True declining_window, Connect True granting_window,
      SwitchNetwork unknown_chain_window ''0x89'', AccountsChanged True granting_window [],
      ConnectBegin, ConnectResume empty_list_window]
     (initial_world None)"
    by (simp add: starts_connect_def connect_def connect_begin_def connect_resume_def
        updateWalletState_def switchNetwork_def handleAccountsChanged_def disconnect_def
        setWalletState_def initial_world_def initialWalletState_def
        declining_window_def granting_window_def unknown_chain_window_def
        granting_provider_def)
  from guarded connecting_excludes_connected [OF guarded] show ?thesis
    by (rule conjI)
qed

text \<open>
  C2 as stated fails: a \<open>connect()\<close> called in the connected state sets \<open>isConnecting\<close>
  and leaves \<open>isConnected\<close> true, both while the account request is pending and after it
  has been answered with an empty list.
\<close>

theorem connecting_excludes_connected_counterexample:
  "isConnecting (walletState (runs [Connect True granting_window, ConnectBegin]
                    (initial_world None)))
   \<and> isConnected (walletState (runs [Connect True granting_window, ConnectBegin]
                    (initial_world None)))
   \<and> isConnecting (walletState (runs [Connect True granting_window,
                      Connect True empty_list_window] (initial_world None)))
   \<and> isConnected (walletState (runs [Connect True granting_window,
                      Connect True empty_list_window] (initial_world None)))"
proof -
  have pending: "runs [Connect True granting_window, ConnectBegin] (initial_world None)
                   = connect_begin connected_world"
    by (simp add: connected_world_def)
  have answered: "runs [Connect True granting_window, Connect True empty_list_window]
                    (initial_world None) = connect True empty_list_window connected_world"
    by (simp add: connected_world_def)
  show ?thesis
    unfolding pending answered
    by (simp add: connected_world_eq connect_def connect_begin_def connect_resume_def
        setWalletState_def empty_list_window_def granting_provider_def)
qed

text \<open>
  C3, as amended. For every run of the sync routine \<open>updateWalletState\<close> that finds no
  provider or whose chain-id query fails, the resulting session has
  \<open>error = "Failed to update wallet information"\<close> and \<open>isConnecting = false\<close>, and
  \<open>address\<close>, \<open>isConnected\<close>, \<open>chainId\<close> and \<open>balance\<close> keep their previous values: the
  attempted address is not stored, and \<open>isConnected\<close> is not forced to false. The persisted
  flag is not touched. A failing balance query alone does not fail the routine: it
  completes with \<open>balance\<close> absent, and with \<open>error\<close> absent unless
  \<open>localStorage.setItem\<close> throws.
\<close>

theorem updateWalletState_failure:
  "(ethereum w = None \<or> (\<exists>p e. ethereum w = Some p \<and> eth_chainId p = Inl e) \<longrightarrow>
      walletState (updateWalletState w addr s) =
        (walletState s)\<lparr>error := Some ''Failed to update wallet information'',
                         isConnecting := False\<rparr>
      \<and> address (walletState (updateWalletState w addr s)) = address (walletState s)
      \<and> isConnected (walletState (updateWalletState w addr s)) = isConnected (walletState s)
      \<and> walletConnected (updateWalletState w addr s) = walletConnected s)
   \<and> ((\<exists>p cid e. ethereum w = Some p \<and> eth_chainId p = Inr cid
                  \<and> eth_getBalance p addr = Inl e) \<longrightarrow>
      address (walletState (updateWalletState w addr s)) = Some addr
      \<and> balance (walletState (updateWalletState w addr s)) = None
      \<and> isConnected (walletState (updateWalletState w addr s))
      \<and> \<not> isConnecting (walletState (updateWalletState w addr s))
      \<and> error (walletState (updateWalletState w addr s))
          = (if setItem_ok w then None else Some ''Failed to update wallet information''))"
proof (intro conjI impI)
  assume failed: "ethereum w = None \<or> (\<exists>p e. ethereum w = Some p \<and> eth_chainId p = Inl e)"
  note eq = updateWalletState_failed [OF failed, of addr s]
  show "walletState (updateWalletState w addr s) =
          (walletState s)\<lparr>error := Some ''Failed to update wallet information'',
                           isConnecting := False\<rparr>"
    by (simp add: eq setWalletState_def)
  show "address (walletState (updateWalletState w addr s)) = address (walletState s)"
    by (simp add: eq setWalletState_def)
  show "isConnected (walletState (updateWalletState w addr s)) = isConnected (walletState s)"
    by (simp add: eq setWalletState_def)
  show "walletConnected (updateWalletState w addr s) = walletConnected s"
    by (simp add: eq setWalletState_def)
next
  assume "\<exists>p cid e. ethereum w = Some p \<and> eth_chainId p = Inr cid
            \<and> eth_getBalance p addr = Inl e"
  then obtain p cid e where p: "ethereum w = Some p" and c: "eth_chainId p = Inr cid"
    and b: "eth_getBalance p addr = Inl e"
    by blast
  have none: "getBalance w addr = None"
    using p b by (simp add: getBalance_def)
  note eq = updateWalletState_succeeded [OF p c, of addr s]
  show "address (walletState (updateWalletState w addr s)) = Some addr"
    by (simp add: eq setWalletState_def)
  show "balance (walletState (updateWalletState w addr s)) = None"
    by (simp add: eq setWalletState_def none)
  show "isConnected (walletState (updateWalletState w addr s))"
    by (simp add: eq setWalletState_def)
  show "\<not> isConnecting (walletState (updateWalletState w addr s))"
    by (simp add: eq setWalletState_def)
  show "error (walletState (updateWalletState w addr s))
          = (if setItem_ok w then None else Some ''Failed to update wallet information'')"
    by (simp add: eq setWalletState_def)
qed

theorem updateWalletState_failure_witness:
  "walletState (updateWalletState chain_failing_window ''0xde709f2102306220921060314715629080e2fb77''
                  connected_world) =
     (walletState connected_world)\<lparr>error := Some ''Failed to update wallet information'',
                                     isConnecting := False\<rparr>
   \<and> address (walletState (updateWalletState chain_failing_window
                  ''0xde709f2102306220921060314715629080e2fb77'' connected_world))
       = Some ''0x52908400098527886E0F7030069857D2E4169EE7''
   \<and> isConnected (walletState (updateWalletState chain_failing_window
                  ''0xde709f2102306220921060314715629080e2fb77'' connected_world))
   \<and> balance (walletState (updateWalletState balance_failing_window
         ''0xde709f2102306220921060314715629080e2fb77'' (initial_world None))) = None
   \<and> isConnected (walletState (updateWalletState balance_failing_window
         ''0xde709f2102306220921060314715629080e2fb77'' (initial_world None)))
   \<and> error (walletState (updateWalletState balance_failing_window
         ''0xde709f2102306220921060314715629080e2fb77'' (initial_world None))) = None"
  using updateWalletState_failure [of chain_failing_window
      "''0xde709f2102306220921060314715629080e2fb77''" connected_world]
    updateWalletState_failure [of balance_failing_window
      "''0xde709f2102306220921060314715629080e2fb77''" "initial_world None"]
  by (simp add: chain_failing_window_def balance_failing_window_def granting_provider_def
      connected_world_eq)

text \<open>
  C3 as stated fails: when the chain-id query fails for a new address, the session does
  not take the attempted address (here it stays absent), and the message starts with a
  capital letter.
\<close>

theorem updateWalletState_failure_counterexample:
  "address (walletState (updateWalletState chain_failing_window
              ''0xde709f2102306220921060314715629080e2fb77'' (initial_world None)))
     \<noteq> Some ''0xde709f2102306220921060314715629080e2fb77''
   \<and> error (walletState (updateWalletState chain_failing_window
              ''0xde709f2102306220921060314715629080e2fb77'' (initial_world None)))
     \<noteq> Some ''failed to update wallet information''"
  by (simp add: updateWalletState_def setWalletState_def chain_failing_window_def
      granting_provider_def initial_world_def initialWalletState_def)

text \<open>
  C4, as amended. For every \<open>connect()\<close> call whose account-access request the provider
  rejects with the code 4001 (user declined), the resulting session has
  \<open>isConnecting = false\<close> and \<open>error = "Connection rejected by user"\<close>, and every other
  field keeps the value it had before the call; so \<open>address\<close> is absent when it was absent
  before. The persisted flag is not touched.
\<close>

theorem connect_rejected:
  assumes "installed"
    and "ethereum w = Some p"
    and "eth_requestAccounts p = Inl e"
    and "code e = Some 4001"
  shows "walletState (connect installed w s) =
           (walletState s)\<lparr>error := Some ''Connection rejected by user'',
                            isConnecting := False\<rparr>
         \<and> \<not> isConnecting (walletState (connect installed w s))
         \<and> error (walletState (connect installed w s)) = Some ''Connection rejected by user''
         \<and> address (walletState (connect installed w s)) = address (walletState s)
         \<and> (address (walletState s) = None \<longrightarrow>
              address (walletState (connect installed w s)) = None)
         \<and> walletConnected (connect installed w s) = walletConnected s"
  using assms
  by (simp add: connect_def connect_begin_def connect_resume_def setWalletState_def)

theorem connect_rejected_witness:
  "\<not> isConnecting (walletState (connect True declining_window (initial_world None)))
   \<and> error (walletState (connect True declining_window (initial_world None)))
       = Some ''Connection rejected by user''
   \<and> address (walletState (connect True declining_window (initial_world None))) = None"
  using connect_rejected [of True declining_window _
      "RpcError (Some 4001) ''User rejected the request.''" "initial_world None"]
  by (simp add: declining_window_def initial_world_def initialWalletState_def)

text \<open>
  C4 as stated fails: a \<open>connect()\<close> that the user declines while the session already has
  an address keeps that address, and the message starts with a capital letter.
\<close>

theorem connect_rejected_counterexample:
  "address (walletState (connect True declining_window connected_world)) \<noteq> None
   \<and> error (walletState (connect True declining_window connected_world))
       \<noteq> Some ''connection rejected by user''"
  by (simp add: connected_world_eq connect_def connect_begin_def connect_resume_def
      setWalletState_def declining_window_def)

text \<open>
  C5, as amended. For every \<open>connect()\<close> call made when the hook has found no MetaMask
  provider, the controller sets \<open>error = "MetaMask is not installed"\<close> and returns with
  every other session field (\<open>address\<close>, \<open>isConnected\<close>, \<open>isConnecting\<close>, \<open>chainId\<close>,
  \<open>balance\<close>) and the persisted flag unchanged; \<open>isConnecting\<close> is not set to true on this
  path.
\<close>

theorem connect_not_installed:
  "walletState (connect False w s) =
     (walletState s)\<lparr>error := Some ''MetaMask is not installed''\<rparr>
   \<and> error (walletState (connect False w s)) = Some ''MetaMask is not installed''
   \<and> address (walletState (connect False w s)) = address (walletState s)
   \<and> isConnected (walletState (connect False w s)) = isConnected (walletState s)
   \<and> isConnecting (walletState (connect False w s)) = isConnecting (walletState s)
   \<and> chainId (walletState (connect False w s)) = chainId (walletState s)
   \<and> balance (walletState (connect False w s)) = balance (walletState s)
   \<and> walletConnected (connect False w s) = walletConnected s"
  by (simp add: connect_def setWalletState_def)

text \<open>
  C5 as stated fails only in the text of the message: with no provider in the window the
  message is \<open>MetaMask is not installed\<close>.
\<close>

theorem connect_not_installed_counterexample:
  "isMetamaskInstalled bare_window = False
   \<and> error (walletState (connect False bare_window (initial_world None)))
       \<noteq> Some ''provider not installed''"
  by (simp add: isMetamaskInstalled_def bare_window_def connect_def setWalletState_def)

text \<open>
  C6, as amended. \<open>getBalance\<close> converts the raw hex-encoded smallest-unit balance by
  dividing by \<open>10\<^sup>1\<^sup>8\<close> in double precision and formatting with \<open>toFixed(4)\<close>. For input
  \<open>0xde0b6b3a7640000\<close> it returns \<open>1.0000\<close> and for input \<open>0x0\<close> it returns \<open>0.0000\<close>. For
  every balance written as \<open>0x\<close> and at most 32 hex digits (below \<open>2\<^sup>1\<^sup>2\<^sup>8\<close> wei) the result
  has exactly 4 decimal places: digits, a point, four digits; and the number printed
  differs from the balance divided by \<open>10\<^sup>1\<^sup>8\<close> by at most half a unit of the fourth
  place plus a \<open>2\<^sup>-\<^sup>5\<^sup>1\<close> part of the quotient. (From \<open>10\<^sup>2\<^sup>1\<close> ether on, \<open>toFixed\<close> answers in
  exponent notation.)
\<close>

theorem getBalance_four_decimals:
  assumes "ethereum w = Some p"
  shows "(eth_getBalance p addr = Inr ''0xde0b6b3a7640000'' \<longrightarrow>
            getBalance w addr = Some ''1.0000'')
         \<and> (eth_getBalance p addr = Inr ''0x0'' \<longrightarrow> getBalance w addr = Some ''0.0000'')
         \<and> (eth_getBalance p addr = Inr (''0x'' @ ds) \<and> ds \<noteq> [] \<and> list_all is_hex_digit ds
              \<and> length ds \<le> 32 \<longrightarrow>
              (\<exists>ip fp. getBalance w addr = Some (ip @ ''.'' @ fp) \<and> ip \<noteq> [] \<and> length fp = 4
                 \<and> list_all is_decimal_digit (ip @ fp)
                 \<and> \<bar>rat_of_int (decimal_value (ip @ fp)) / 10 ^ 4
                      - rat_of_int (hex_value ds) / 10 ^ 18\<bar>
                     \<le> 1 / (2 * 10 ^ 4) + rat_of_int (hex_value ds) / 10 ^ 18 / 2 ^ 51))"
proof (intro conjI impI)
  assume "eth_getBalance p addr = Inr ''0xde0b6b3a7640000''"
  with assms have "getBalance w addr
      = Some (toFixed (number_div (parseInt16 ''0xde0b6b3a7640000'') (10 ^ 18)) 4)"
    by (simp add: getBalance_def)
  then show "getBalance w addr = Some ''1.0000''"
    by (simp only: parseInt16_one_ether number_div_one_ether toFixed_one)
next
  assume "eth_getBalance p addr = Inr ''0x0''"
  with assms have "getBalance w addr
      = Some (toFixed (number_div (parseInt16 ''0x0'') (10 ^ 18)) 4)"
    by (simp add: getBalance_def)
  then show "getBalance w addr = Some ''0.0000''"
    by (simp only: parseInt16_zero number_div_zero toFixed_zero)
next
  assume "eth_getBalance p addr = Inr (''0x'' @ ds) \<and> ds \<noteq> [] \<and> list_all is_hex_digit ds
            \<and> length ds \<le> 32"
  then have "eth_getBalance p addr = Inr (''0x'' @ ds)" "ds \<noteq> []" "list_all is_hex_digit ds"
    "length ds \<le> 32"
    by simp_all
  with assms show "\<exists>ip fp. getBalance w addr = Some (ip @ ''.'' @ fp) \<and> ip \<noteq> []
      \<and> length fp = 4 \<and> list_all is_decimal_digit (ip @ fp)
      \<and> \<bar>rat_of_int (decimal_value (ip @ fp)) / 10 ^ 4 - rat_of_int (hex_value ds) / 10 ^ 18\<bar>
          \<le> 1 / (2 * 10 ^ 4) + rat_of_int (hex_value ds) / 10 ^ 18 / 2 ^ 51"
    by (rule getBalance_hex)
qed

theorem getBalance_four_decimals_witness:
  "getBalance granting_window ''0x52908400098527886E0F7030069857D2E4169EE7'' = Some ''1.0000''
   \<and> getBalance empty_account_window ''0x52908400098527886E0F7030069857D2E4169EE7''
       = Some ''0.0000''
   \<and> (\<exists>ip fp. getBalance granting_window ''0x52908400098527886E0F7030069857D2E4169EE7''
                  = Some (ip @ ''.'' @ fp)
         \<and> ip \<noteq> [] \<and> length fp = 4 \<and> list_all is_decimal_digit (ip @ fp)
         \<and> \<bar>rat_of_int (decimal_value (ip @ fp)) / 10 ^ 4
              - rat_of_int (hex_value ''de0b6b3a7640000'') / 10 ^ 18\<bar>
             \<le> 1 / (2 * 10 ^ 4) + rat_of_int (hex_value ''de0b6b3a7640000'') / 10 ^ 18 / 2 ^ 51)"
proof -
  have granting: "ethereum granting_window = Some granting_provider"
    by (simp add: granting_window_def)
  have empty: "ethereum empty_account_window
                 = Some (granting_provider\<lparr>eth_getBalance := (\<lambda>_. Inr ''0x0'')\<rparr>)"
    by (simp add: empty_account_window_def)
  have one_ether: "eth_getBalance granting_provider ''0x52908400098527886E0F7030069857D2E4169EE7''
                     = Inr ''0xde0b6b3a7640000''"
    by (simp add: granting_provider_def)
  have general: "eth_getBalance granting_provider ''0x52908400098527886E0F7030069857D2E4169EE7''
                     = Inr (''0x'' @ ''de0b6b3a7640000'')
                   \<and> ''de0b6b3a7640000'' \<noteq> [] \<and> list_all is_hex_digit ''de0b6b3a7640000''
                   \<and> length ''de0b6b3a7640000'' \<le> 32"
    by (simp add: granting_provider_def is_hex_digit_def hex_digit_value_def)
  note at_granting = getBalance_four_decimals [OF granting,
      of "''0x52908400098527886E0F7030069857D2E4169EE7''" "''de0b6b3a7640000''"]
  note at_empty = getBalance_four_decimals [OF empty,
      of "''0x52908400098527886E0F7030069857D2E4169EE7''" "''0''"]
  have "getBalance granting_window ''0x52908400098527886E0F7030069857D2E4169EE7''
          = Some ''1.0000''"
    using at_granting [THEN conjunct1] one_ether by (rule mp)
  moreover
  have "getBalance empty_account_window ''0x52908400098527886E0F7030069857D2E4169EE7''
          = Some ''0.0000''"
    using at_empty [THEN conjunct2, THEN conjunct1] by simp
  moreover
  have "\<exists>ip fp. getBalance granting_window ''0x52908400098527886E0F7030069857D2E4169EE7''
                  = Some (ip @ ''.'' @ fp)
         \<and> ip \<noteq> [] \<and> length fp = 4 \<and> list_all is_decimal_digit (ip @ fp)
         \<and> \<bar>rat_of_int (decimal_value (ip @ fp)) / 10 ^ 4
              - rat_of_int (hex_value ''de0b6b3a7640000'') / 10 ^ 18\<bar>
             \<le> 1 / (2 * 10 ^ 4) + rat_of_int (hex_value ''de0b6b3a7640000'') / 10 ^ 18 / 2 ^ 51"
    using at_granting [THEN conjunct2, THEN conjunct2] general by (rule mp)
  ultimately show ?thesis by (intro conjI)
qed

text \<open>
  C6 as stated fails for a large balance: for \<open>10\<^sup>3\<^sup>9\<close> wei (\<open>10\<^sup>2\<^sup>1\<close> ether) the result has no
  decimal places at all.
\<close>

theorem getBalance_four_decimals_counterexample:
  "getBalance huge_account_window ''0x52908400098527886E0F7030069857D2E4169EE7''
     = Some ''1e+21''"
proof -
  have "getBalance huge_account_window ''0x52908400098527886E0F7030069857D2E4169EE7''
          = Some (toFixed (number_div
              (parseInt16 ''0x2f050fe938943acc45f65568000000000'') (10 ^ 18)) 4)"
    by (simp add: getBalance_def huge_account_window_def)
  then show ?thesis
    by (simp only: parseInt16_huge number_div_huge toFixed_huge)
qed


text \<open>
  C8. For every \<open>switchNetwork(chainId)\<close> call that the provider rejects with the code
  4902 (network not recognized), the resulting session has
  \<open>error = "This network is not added to MetaMask"\<close> and every other session field
  (\<open>address\<close>, \<open>isConnected\<close>, \<open>isConnecting\<close>, \<open>chainId\<close>, \<open>balance\<close>) unchanged. The
  persisted flag is unchanged too.
\<close>

theorem switchNetwork_not_added:
  assumes "ethereum w = Some p"
    and "wallet_switchEthereumChain p cid = Inl e"
    and "code e = Some 4902"
  shows "walletState (switchNetwork w cid s) =
           (walletState s)\<lparr>error := Some ''This network is not added to MetaMask''\<rparr>
         \<and> error (walletState (switchNetwork w cid s))
             = Some ''This network is not added to MetaMask''
         \<and> address (walletState (switchNetwork w cid s)) = address (walletState s)
         \<and> isConnected (walletState (switchNetwork w cid s)) = isConnected (walletState s)
         \<and> isConnecting (walletState (switchNetwork w cid s)) = isConnecting (walletState s)
         \<and> chainId (walletState (switchNetwork w cid s)) = chainId (walletState s)
         \<and> balance (walletState (switchNetwork w cid s)) = balance (walletState s)
         \<and> walletConnected (switchNetwork w cid s) = walletConnected s"
  using assms by (simp add: switchNetwork_def setWalletState_def)

theorem switchNetwork_not_added_witness:
  "error (walletState (switchNetwork unknown_chain_window ''0x89'' connected_world))
     = Some ''This network is not added to MetaMask''
   \<and> address (walletState (switchNetwork unknown_chain_window ''0x89'' connected_world))
       = Some ''0x52908400098527886E0F7030069857D2E4169EE7''
   \<and> isConnected (walletState (switchNetwork unknown_chain_window ''0x89'' connected_world))
   \<and> \<not> isConnecting (walletState (switchNetwork unknown_chain_window ''0x89'' connected_world))
   \<and> chainId (walletState (switchNetwork unknown_chain_window ''0x89'' connected_world))
       = Some ''0x1''"
  using switchNetwork_not_added [of unknown_chain_window _ "''0x89''"
      "RpcError (Some 4902) ''Unrecognized chain ID.''" connected_world]
  by (simp add: unknown_chain_window_def connected_world_eq)

text \<open>
  C9. For every \<open>connect()\<close> call in which the account-access request succeeds with an
  empty account list, the session is left with \<open>isConnecting = true\<close> and \<open>error\<close> absent:
  no branch clears \<open>isConnecting\<close> on this path. The other fields and the persisted flag
  are as before the call.
\<close>

theorem connect_empty_account_list:
  assumes "installed"
    and "ethereum w = Some p"
    and "eth_requestAccounts p = Inr []"
  shows "isConnecting (walletState (connect installed w s))
         \<and> error (walletState (connect installed w s)) = None
         \<and> walletState (connect installed w s) =
             (walletState s)\<lparr>isConnecting := True, error := None\<rparr>
         \<and> walletConnected (connect installed w s) = walletConnected s"
  using assms
  by (simp add: connect_def connect_begin_def connect_resume_def setWalletState_def)

theorem connect_empty_account_list_witness:
  "isConnecting (walletState (connect True empty_list_window (initial_world None)))
   \<and> error (walletState (connect True empty_list_window (initial_world None))) = None
   \<and> \<not> isConnected (walletState (connect True empty_list_window (initial_world None)))
   \<and> address (walletState (connect True empty_list_window (initial_world None))) = None"
  using connect_empty_account_list [of True empty_list_window _ "initial_world None"]
  by (simp add: empty_list_window_def initial_world_def initialWalletState_def)

text \<open>
  C10. \<open>formatAddress\<close> returns a string of length 10 or fewer unchanged, and for every
  longer string returns its first 6 characters, then \<open>...\<close>, then its last 4 characters.
\<close>

theorem formatAddress_spec:
  "(length addr \<le> 10 \<longrightarrow> formatAddress addr = addr)
   \<and> (10 < length addr \<longrightarrow>
        formatAddress addr = take 6 addr @ ''...'' @ drop (length addr - 4) addr
        \<and> length (take 6 addr) = 6 \<and> length (drop (length addr - 4) addr) = 4)"
proof (cases "length addr \<le> 10")
  case True
  then show ?thesis by (simp add: formatAddress_def)
next
  case False
  then have long: "10 < length addr" by simp
  have last4: "nat (int (length addr) - 4) = length addr - 4" by linarith
  have "substring addr 0 6 = take 6 addr"
    using long by (simp add: substring_def clamp_index_def)
  moreover have "substring_from addr (int (length addr) - 4) = drop (length addr - 4) addr"
    using long by (simp add: substring_from_def substring_def clamp_index_def last4)
  ultimately show ?thesis
    using long by (simp add: formatAddress_def)
qed

theorem formatAddress_spec_witness:
  "formatAddress ''0x12345678'' = ''0x12345678''
   \<and> formatAddress ''0x52908400098527886E0F7030069857D2E4169EE7'' = ''0x5290...9EE7''"
  using formatAddress_spec [of "''0x12345678''"]
    formatAddress_spec [of "''0x52908400098527886E0F7030069857D2E4169EE7''"]
  by simp

end
